theory Spec2Isabelle
  imports Complex_Main "HOL-Library.Sublist"
begin

section \<open>Transforms on batches of representational dissimilarity matrices\<close>

text \<open>
  This theory embeds \<^verbatim>\<open>rsatoolbox/rdm/transform.py\<close>. A dissimilarity batch is the
  two-dimensional array returned by \<^verbatim>\<open>get_vectors\<close>, modelled as a list of rows. The
  entries of an input batch are finite doubles, idealised as real numbers (rounding is not
  modelled). The non-finite values that the transforms themselves can produce are explicit
  in the type \<open>npfloat\<close>.
\<close>

subsection \<open>Errors and numbers\<close>

text \<open>
  The exceptions of the Python code are values. \<open>DegenerateRangeError\<close>,
  \<open>InvalidParameterError\<close> and \<open>ShapeError\<close> are named by the specification only; no
  function of the module constructs them.
\<close>

datatype error =
    ValueError
  | TypeError
  | IndexError
  | DegenerateRangeError
  | InvalidParameterError
  | ShapeError

datatype npfloat = Fin real | PInf | NInf | NaN

type_synonym 'a block = "'a list list"

text \<open>IEEE-754 division of two finite numbers, as numpy performs it (a warning, no exception).\<close>

definition np_div :: "real \<Rightarrow> real \<Rightarrow> npfloat" where
  "np_div a b =
     (if b = 0 then (if a = 0 then NaN else if 0 < a then PInf else NInf)
      else Fin (a / b))"

subsection \<open>The container\<close>

text \<open>
  The class \<^verbatim>\<open>RDMs\<close> is a collaborator of the module. The transforms read its
  dissimilarity block, its measure label (which may be \<^verbatim>\<open>None\<close>) and three descriptor
  dictionaries, and call its constructor with the same five fields.
\<close>

type_synonym descr = "(string \<times> int list) list"

record 'a RDMs =
  dissimilarities :: "'a block"
  dissimilarity_measure :: "string option"
  descriptors :: descr
  rdm_descriptors :: descr
  pattern_descriptors :: descr

definition get_vectors :: "'a RDMs \<Rightarrow> 'a block" where
  "get_vectors rdms = dissimilarities rdms"

definition n_rdm :: "'a RDMs \<Rightarrow> nat" where
  "n_rdm rdms = length (dissimilarities rdms)"

text \<open>On values a deep copy is the identity; the store-level model below separates the copies.\<close>

definition deepcopy :: "descr \<Rightarrow> descr" where
  "deepcopy d = d"

text \<open>\<^verbatim>\<open>'prefix' + rdms.dissimilarity_measure\<close>: concatenating \<^verbatim>\<open>None\<close> raises.\<close>

definition str_add :: "string \<Rightarrow> string option \<Rightarrow> error + string" where
  "str_add p m = (case m of None \<Rightarrow> Inl TypeError | Some s \<Rightarrow> Inr (p @ s))"

definition rewrap :: "'a RDMs \<Rightarrow> 'b block \<Rightarrow> string \<Rightarrow> 'b RDMs" where
  "rewrap rdms d meas =
     \<lparr> dissimilarities = d,
       dissimilarity_measure = Some meas,
       descriptors = deepcopy (descriptors rdms),
       rdm_descriptors = deepcopy (rdm_descriptors rdms),
       pattern_descriptors = deepcopy (pattern_descriptors rdms) \<rparr>"

subsection \<open>Square root and clamping\<close>

text \<open>\<^verbatim>\<open>dissimilarities[dissimilarities < 0] = 0\<close>\<close>

definition clamp_negative :: "real block \<Rightarrow> real block" where
  "clamp_negative d = map (map (\<lambda>x. if x < 0 then 0 else x)) d"

definition np_sqrt :: "real block \<Rightarrow> real block" where
  "np_sqrt d = map (map sqrt) d"

definition sqrt_measure :: "string option \<Rightarrow> error + string" where
  "sqrt_measure m =
     (if m = Some ''squared euclidean'' then Inr ''euclidean''
      else if m = Some ''squared mahalanobis'' then Inr ''mahalanobis''
      else str_add ''sqrt of'' m)"

definition sqrt_transform :: "real RDMs \<Rightarrow> error + real RDMs" where
  "sqrt_transform rdms =
     (let dissimilarities = get_vectors rdms;
          dissimilarities = clamp_negative dissimilarities;
          dissimilarities = np_sqrt dissimilarities
      in case sqrt_measure (dissimilarity_measure rdms) of
           Inl e \<Rightarrow> Inl e
         | Inr meas \<Rightarrow> Inr (rewrap rdms dissimilarities meas))"

definition positive_transform :: "real RDMs \<Rightarrow> error + real RDMs" where
  "positive_transform rdms =
     (let dissimilarities = get_vectors rdms;
          dissimilarities = clamp_negative dissimilarities
      in Inr \<lparr> dissimilarities = dissimilarities,
               dissimilarity_measure = dissimilarity_measure rdms,
               descriptors = deepcopy (descriptors rdms),
               rdm_descriptors = deepcopy (rdm_descriptors rdms),
               pattern_descriptors = deepcopy (pattern_descriptors rdms) \<rparr>)"

definition transform :: "real RDMs \<Rightarrow> (real block \<Rightarrow> 'b block) \<Rightarrow> error + 'b RDMs" where
  "transform rdms f =
     (let dissimilarities = get_vectors rdms;
          dissimilarities = f dissimilarities
      in case str_add ''transformed '' (dissimilarity_measure rdms) of
           Inl e \<Rightarrow> Inl e
         | Inr meas \<Rightarrow> Inr (rewrap rdms dissimilarities meas))"

subsection \<open>Min-max normalisation\<close>

text \<open>
  \<^verbatim>\<open>dissimilarities.max()\<close> and \<^verbatim>\<open>.min()\<close> reduce over the whole array and raise
  \<^verbatim>\<open>ValueError\<close> on an array without elements.
\<close>

definition np_max :: "real block \<Rightarrow> error + real" where
  "np_max d = (case concat d of [] \<Rightarrow> Inl ValueError | x # xs \<Rightarrow> Inr (fold max xs x))"

definition np_min :: "real block \<Rightarrow> error + real" where
  "np_min d = (case concat d of [] \<Rightarrow> Inl ValueError | x # xs \<Rightarrow> Inr (fold min xs x))"

definition minmax_transform :: "real RDMs \<Rightarrow> error + npfloat RDMs" where
  "minmax_transform rdms =
     (let dissimilarities = get_vectors rdms in
      case np_max dissimilarities of Inl e \<Rightarrow> Inl e | Inr d_max \<Rightarrow>
      case np_min dissimilarities of Inl e \<Rightarrow> Inl e | Inr d_min \<Rightarrow>
      let dissimilarities =
            map (map (\<lambda>x. np_div (x - d_min) (d_max - d_min))) dissimilarities
      in case str_add ''minmax transformed '' (dissimilarity_measure rdms) of
           Inl e \<Rightarrow> Inl e
         | Inr meas \<Rightarrow> Inr (rewrap rdms dissimilarities meas))"

subsection \<open>The geo-topological transform\<close>

text \<open>
  \<^verbatim>\<open>np.quantile(a, q)\<close> with the default method: \<open>q\<close> outside \<open>[0, 1]\<close> raises
  \<^verbatim>\<open>ValueError\<close>; otherwise the flattened array is sorted and the value at the virtual
  index \<open>q * (n - 1)\<close> is interpolated linearly between its two neighbours. On an array
  without elements the neighbour lookup raises \<^verbatim>\<open>IndexError\<close>.
\<close>

definition np_quantile :: "real block \<Rightarrow> real \<Rightarrow> error + real" where
  "np_quantile d q =
     (if \<not> (0 \<le> q \<and> q \<le> 1) then Inl ValueError
      else if concat d = [] then Inl IndexError
      else let arr = sort (concat d);
               n = length arr;
               virtual_index = q * real (n - 1);
               previous_index = nat \<lfloor>virtual_index\<rfloor>;
               next_index = min (previous_index + 1) (n - 1);
               gamma = virtual_index - real previous_index
           in Inr (arr ! previous_index
                   + (arr ! next_index - arr ! previous_index) * gamma))"

text \<open>The comparison \<^verbatim>\<open>x > g\<close> on a stored value: false on NaN.\<close>

fun np_greater :: "npfloat \<Rightarrow> real \<Rightarrow> bool" where
  "np_greater (Fin x) g = (g < x)"
| "np_greater PInf g = True"
| "np_greater NInf g = False"
| "np_greater NaN g = False"

text \<open>
  The three masked assignments of lines 158 to 162, in the order of the source. Each mask
  is computed from the array as the previous assignment left it.
\<close>

definition gt_clamp_low :: "real \<Rightarrow> real block \<Rightarrow> real block" where
  "gt_clamp_low gt_min d = map (map (\<lambda>x. if x < gt_min then 0 else x)) d"

definition gt_rescale :: "real \<Rightarrow> real \<Rightarrow> real block \<Rightarrow> npfloat block" where
  "gt_rescale gt_min gt_max d =
     map (map (\<lambda>x. if gt_min \<le> x \<and> x \<le> gt_max
                    then np_div (x - gt_min) (gt_max - gt_min) else Fin x)) d"

definition gt_clamp_high :: "real \<Rightarrow> npfloat block \<Rightarrow> npfloat block" where
  "gt_clamp_high gt_max d = map (map (\<lambda>v. if np_greater v gt_max then Fin 1 else v)) d"

definition geotopological_transform :: "real RDMs \<Rightarrow> real \<Rightarrow> real \<Rightarrow> error + npfloat RDMs" where
  "geotopological_transform rdms l u =
     (let dissimilarities = get_vectors rdms in
      case np_quantile dissimilarities l of Inl e \<Rightarrow> Inl e | Inr gt_min \<Rightarrow>
      case np_quantile dissimilarities u of Inl e \<Rightarrow> Inl e | Inr gt_max \<Rightarrow>
      let dissimilarities = gt_clamp_low gt_min dissimilarities;
          dissimilarities = gt_rescale gt_min gt_max dissimilarities;
          dissimilarities = gt_clamp_high gt_max dissimilarities
      in case str_add ''geo-topological transformed '' (dissimilarity_measure rdms) of
           Inl e \<Rightarrow> Inl e
         | Inr meas \<Rightarrow> Inr (rewrap rdms dissimilarities meas))"

text \<open>The three-way partition by original values that the documentation of the transform describes.\<close>

definition gt_partition :: "real \<Rightarrow> real \<Rightarrow> real \<Rightarrow> npfloat" where
  "gt_partition gt_min gt_max x =
     (if x < gt_min then Fin 0
      else if gt_max < x then Fin 1
      else np_div (x - gt_min) (gt_max - gt_min))"

subsection \<open>Ranks\<close>

text \<open>
  \<^verbatim>\<open>scipy.stats.rankdata(a, method)\<close> raises \<^verbatim>\<open>ValueError\<close> for a method outside the
  five it knows, before it looks at the data. Otherwise the element at position \<open>i\<close>
  receives: with \<open>min\<close>, one more than the number of elements smaller than it; with \<open>max\<close>,
  the number of elements not greater than it; with \<open>average\<close>, the mean of the two; with
  \<open>dense\<close>, one more than the number of distinct smaller values; with \<open>ordinal\<close>, its
  position in a stable sort, that is, one more than the number of positions that hold a
  smaller value, or an equal value further to the left.
\<close>

definition rank_methods :: "string list" where
  "rank_methods = [''average'', ''min'', ''max'', ''dense'', ''ordinal'']"

definition rank_min :: "real list \<Rightarrow> nat \<Rightarrow> nat" where
  "rank_min a i = length (filter (\<lambda>y. y < a ! i) a) + 1"

definition rank_max :: "real list \<Rightarrow> nat \<Rightarrow> nat" where
  "rank_max a i = length (filter (\<lambda>y. y \<le> a ! i) a)"

definition rank_dense :: "real list \<Rightarrow> nat \<Rightarrow> nat" where
  "rank_dense a i = length (remdups (filter (\<lambda>y. y < a ! i) a)) + 1"

definition rank_ordinal :: "real list \<Rightarrow> nat \<Rightarrow> nat" where
  "rank_ordinal a i =
     length (filter (\<lambda>j. a ! j < a ! i \<or> (a ! j = a ! i \<and> j < i)) [0..<length a]) + 1"

definition rank_of :: "string \<Rightarrow> real list \<Rightarrow> nat \<Rightarrow> real" where
  "rank_of method a i =
     (if method = ''ordinal'' then real (rank_ordinal a i)
      else if method = ''dense'' then real (rank_dense a i)
      else if method = ''max'' then real (rank_max a i)
      else if method = ''min'' then real (rank_min a i)
      else (real (rank_max a i) + real (rank_min a i)) / 2)"

definition rankdata :: "real list \<Rightarrow> string \<Rightarrow> error + real list" where
  "rankdata a method =
     (if method \<notin> set rank_methods then Inl ValueError
      else Inr (map (rank_of method a) [0..<length a]))"

text \<open>A list comprehension over calls that may raise: the first exception ends it.\<close>

fun collect :: "(error + 'a) list \<Rightarrow> error + 'a list" where
  "collect [] = Inr []"
| "collect (Inl e # rs) = Inl e"
| "collect (Inr x # rs) = (case collect rs of Inl e \<Rightarrow> Inl e | Inr xs \<Rightarrow> Inr (x # xs))"

text \<open>
  Measure labels are ASCII strings. \<^verbatim>\<open>str.strip()\<close> removes the ASCII whitespace
  characters (codes 9 to 13, 28 to 31 and 32) from both ends; \<^verbatim>\<open>'(ranks)' in measure\<close>
  is the contiguous-sublist test.
\<close>

definition is_space :: "char \<Rightarrow> bool" where
  "is_space c = (of_char c \<in> {9, 10, 11, 12, 13, 28, 29, 30, 31, 32 :: nat})"

definition py_strip :: "string \<Rightarrow> string" where
  "py_strip s = rev (dropWhile is_space (rev (dropWhile is_space s)))"

definition rank_measure :: "string option \<Rightarrow> string" where
  "rank_measure m =
     (let measure = (case m of None \<Rightarrow> [] | Some s \<Rightarrow> s)
      in if \<not> sublist ''(ranks)'' measure then py_strip (measure @ '' (ranks)'')
         else measure)"

definition rank_transform :: "real RDMs \<Rightarrow> string \<Rightarrow> error + real RDMs" where
  "rank_transform rdms method =
     (let dissimilarities = get_vectors rdms in
      case collect (map (\<lambda>i. rankdata (dissimilarities ! i) method) [0..<n_rdm rdms]) of
        Inl e \<Rightarrow> Inl e
      | Inr dissimilarities \<Rightarrow>
          Inr (rewrap rdms dissimilarities (rank_measure (dissimilarity_measure rdms))))"

text \<open>
  Two notions for the proofs: the positions that a stable sort places before position \<open>i\<close>,
  and the row of ordinal ranks.
\<close>

definition before :: "real list \<Rightarrow> nat \<Rightarrow> nat set" where
  "before a i = {j. j < length a \<and> (a ! j < a ! i \<or> (a ! j = a ! i \<and> j < i))}"

definition ordinal_row :: "real list \<Rightarrow> real list" where
  "ordinal_row a = map (\<lambda>i. real (rank_ordinal a i)) [0..<length a]"

section \<open>Properties\<close>

subsection \<open>Square root\<close>

text \<open>
  Claim C9. With a measure label present, \<open>sqrt_transform\<close> returns a container whose
  entries are all non-negative, and whose label is \<open>euclidean\<close> for \<open>squared euclidean\<close>,
  \<open>mahalanobis\<close> for \<open>squared mahalanobis\<close>, and otherwise \<open>sqrt of\<close> immediately followed
  by the input label.
\<close>

theorem sqrt_transform_nonneg_and_label:
  assumes "dissimilarity_measure rdms = Some m"
  shows "\<exists>new. sqrt_transform rdms = Inr new
           \<and> (\<forall>row \<in> set (dissimilarities new). \<forall>x \<in> set row. 0 \<le> x)
           \<and> dissimilarities new
               = map (map (\<lambda>x. sqrt (if x < 0 then 0 else x))) (dissimilarities rdms)
           \<and> dissimilarity_measure new
               = Some (if m = ''squared euclidean'' then ''euclidean''
                       else if m = ''squared mahalanobis'' then ''mahalanobis''
                       else ''sqrt of'' @ m)"
  using assms
  by (auto simp: sqrt_transform_def sqrt_measure_def str_add_def rewrap_def get_vectors_def
      clamp_negative_def np_sqrt_def)

text \<open>The theorem of claim C9 at a row with a negative entry and the label \<open>correlation\<close>.\<close>

theorem sqrt_transform_nonneg_and_label_witness:
  "\<exists>new. sqrt_transform \<lparr> dissimilarities = [[-4, 0, 9]],
                           dissimilarity_measure = Some ''correlation'',
                           descriptors = [], rdm_descriptors = [],
                           pattern_descriptors = [] \<rparr> = Inr new
         \<and> (\<forall>row \<in> set (dissimilarities new). \<forall>x \<in> set row. 0 \<le> x)
         \<and> dissimilarity_measure new = Some ''sqrt ofcorrelation''"
  using sqrt_transform_nonneg_and_label
    [of "\<lparr> dissimilarities = [[-4, 0, 9]], dissimilarity_measure = Some ''correlation'',
           descriptors = [], rdm_descriptors = [], pattern_descriptors = [] \<rparr>" "''correlation''"]
  by auto

subsection \<open>Min-max normalisation\<close>

lemma np_max_Inr:
  assumes "np_max d = Inr M"
  shows "M \<in> set (concat d)" and "\<And>x. x \<in> set (concat d) \<Longrightarrow> x \<le> M"
proof -
  from assms obtain x xs where c: "concat d = x # xs" and M: "M = fold max xs x"
    by (auto simp: np_max_def split: list.splits)
  have eq: "M = Max (set (concat d))"
    unfolding c M by (simp only: Max.set_eq_fold)
  have ne: "set (concat d) \<noteq> {}" using c by simp
  show "M \<in> set (concat d)"
    unfolding eq by (rule Max_in[OF finite_set ne])
  show "x \<le> M" if "x \<in> set (concat d)" for x
    unfolding eq by (rule Max_ge[OF finite_set that])
qed

lemma np_min_Inr:
  assumes "np_min d = Inr M"
  shows "M \<in> set (concat d)" and "\<And>x. x \<in> set (concat d) \<Longrightarrow> M \<le> x"
proof -
  from assms obtain x xs where c: "concat d = x # xs" and M: "M = fold min xs x"
    by (auto simp: np_min_def split: list.splits)
  have eq: "M = Min (set (concat d))"
    unfolding c M by (simp only: Min.set_eq_fold)
  have ne: "set (concat d) \<noteq> {}" using c by simp
  show "M \<in> set (concat d)"
    unfolding eq by (rule Min_in[OF finite_set ne])
  show "M \<le> x" if "x \<in> set (concat d)" for x
    unfolding eq by (rule Min_le[OF finite_set that])
qed

lemma minmax_transform_value:
  assumes "dissimilarity_measure rdms = Some m"
    and "np_max (dissimilarities rdms) = Inr d_max"
    and "np_min (dissimilarities rdms) = Inr d_min"
  shows "minmax_transform rdms =
           Inr (rewrap rdms
                 (map (map (\<lambda>x. np_div (x - d_min) (d_max - d_min))) (dissimilarities rdms))
                 (''minmax transformed '' @ m))"
  using assms by (simp add: minmax_transform_def get_vectors_def str_add_def)

text \<open>
  Claim C7. When the global maximum of the batch is strictly greater than its global minimum
  (and a measure label is present), \<open>minmax_transform\<close> returns a container in which every
  entry \<open>x\<close> has become \<open>(x - d_min) / (d_max - d_min)\<close> for the one batch-wide pair
  \<open>d_min\<close>, \<open>d_max\<close>: every output entry is a finite number in \<open>[0, 1]\<close>, entries equal to
  the global minimum become 0, entries equal to the global maximum become 1, and the batch
  \<open>[[0, 5], [10, 15]]\<close> becomes \<open>[[0, 1/3], [2/3, 1]]\<close>.
\<close>

theorem minmax_transform_unit_interval:
  assumes "dissimilarity_measure rdms = Some m"
    and "np_max (dissimilarities rdms) = Inr d_max"
    and "np_min (dissimilarities rdms) = Inr d_min"
    and "d_min < d_max"
  shows "\<exists>new. minmax_transform rdms = Inr new
      \<and> dissimilarities new
          = map (map (\<lambda>x. Fin ((x - d_min) / (d_max - d_min)))) (dissimilarities rdms)
      \<and> (\<forall>row \<in> set (dissimilarities rdms). \<forall>x \<in> set row.
            0 \<le> (x - d_min) / (d_max - d_min) \<and> (x - d_min) / (d_max - d_min) \<le> 1
            \<and> (x = d_min \<longrightarrow> (x - d_min) / (d_max - d_min) = 0)
            \<and> (x = d_max \<longrightarrow> (x - d_min) / (d_max - d_min) = 1))
      \<and> (\<forall>row \<in> set (dissimilarities new). \<forall>v \<in> set row. \<exists>y. v = Fin y \<and> 0 \<le> y \<and> y \<le> 1)
      \<and> map_sum id dissimilarities
            (minmax_transform (rdms\<lparr>dissimilarities := [[0, 5], [10, 15]]\<rparr>))
          = Inr [[Fin 0, Fin (1 / 3)], [Fin (2 / 3), Fin 1]]"
proof -
  let ?f = "\<lambda>x. (x - d_min) / (d_max - d_min)"
  have rng: "0 \<le> ?f x \<and> ?f x \<le> 1 \<and> (x = d_min \<longrightarrow> ?f x = 0) \<and> (x = d_max \<longrightarrow> ?f x = 1)"
    if "row \<in> set (dissimilarities rdms)" "x \<in> set row" for row x
  proof -
    have "x \<in> set (concat (dissimilarities rdms))" using that by auto
    then have "d_min \<le> x" "x \<le> d_max"
      using np_min_Inr(2)[OF assms(3)] np_max_Inr(2)[OF assms(2)] by auto
    then show ?thesis using assms(4) by (simp add: divide_le_eq)
  qed
  have blk: "map (map (\<lambda>x. np_div (x - d_min) (d_max - d_min))) (dissimilarities rdms)
      = map (map (\<lambda>x. Fin (?f x))) (dissimilarities rdms)"
    using assms(4) by (simp add: np_div_def)
  have ex: "map_sum id dissimilarities
            (minmax_transform (rdms\<lparr>dissimilarities := [[0, 5], [10, 15]]\<rparr>))
          = Inr [[Fin 0, Fin (1 / 3)], [Fin (2 / 3), Fin 1]]"
    using assms(1)
    by (simp add: minmax_transform_def get_vectors_def str_add_def np_max_def np_min_def
        np_div_def rewrap_def)
  show ?thesis
    unfolding minmax_transform_value[OF assms(1-3)] blk
    using rng ex by (auto simp: rewrap_def)
qed

text \<open>The theorem of claim C7 at the batch \<open>[[0, 5], [10, 15]]\<close>.\<close>

theorem minmax_transform_unit_interval_witness:
  "\<exists>new. minmax_transform \<lparr> dissimilarities = [[0, 5], [10, 15]],
                            dissimilarity_measure = Some ''euclidean'',
                            descriptors = [], rdm_descriptors = [],
                            pattern_descriptors = [] \<rparr> = Inr new
      \<and> dissimilarities new = [[Fin 0, Fin (1 / 3)], [Fin (2 / 3), Fin 1]]"
  using minmax_transform_unit_interval
    [of "\<lparr> dissimilarities = [[0, 5], [10, 15]], dissimilarity_measure = Some ''euclidean'',
           descriptors = [], rdm_descriptors = [], pattern_descriptors = [] \<rparr>"
        "''euclidean''" 15 0]
  by (auto simp: np_max_def np_min_def)

subsection \<open>The geo-topological transform\<close>

lemma geotopological_transform_value:
  assumes "dissimilarity_measure rdms = Some m"
    and "np_quantile (dissimilarities rdms) l = Inr gt_min"
    and "np_quantile (dissimilarities rdms) u = Inr gt_max"
  shows "geotopological_transform rdms l u =
           Inr (rewrap rdms
                 (gt_clamp_high gt_max (gt_rescale gt_min gt_max
                    (gt_clamp_low gt_min (dissimilarities rdms))))
                 (''geo-topological transformed '' @ m))"
  using assms by (simp add: geotopological_transform_def get_vectors_def str_add_def)

lemma gt_steps_entry:
  "gt_clamp_high gt_max (gt_rescale gt_min gt_max (gt_clamp_low gt_min d))
     = map (map (\<lambda>x. let y = (if x < gt_min then 0 else x);
                         z = (if gt_min \<le> y \<and> y \<le> gt_max
                              then np_div (y - gt_min) (gt_max - gt_min) else Fin y)
                     in if np_greater z gt_max then Fin 1 else z)) d"
  by (simp add: gt_clamp_high_def gt_rescale_def gt_clamp_low_def Let_def comp_def)

text \<open>
  Claim C1 states that every entry is mapped by the three-way partition of its original
  value. The source assigns in place, and the second and third mask are computed from the
  modified array. On the row \<open>[0, 3/8, 5/8]\<close> with \<open>l = 0\<close> and \<open>u = 3/4\<close> the bounds are
  \<open>gt_min = 0\<close> and \<open>gt_max = 1/2\<close>; the entry \<open>3/8\<close> lies in the band and is rescaled to
  \<open>3/4\<close>, which exceeds \<open>gt_max\<close>, so the third assignment overwrites it with 1. On the row
  \<open>[-2, -1, 1]\<close> with \<open>l = 1/2\<close> and \<open>u = 1\<close> the entry \<open>-2\<close> lies below \<open>gt_min = -1\<close>, is
  set to 0, now lies in the band, and is rescaled to \<open>1/2\<close>.
\<close>

theorem geotopological_overwrites_rescaled_entry:
  "np_quantile [[0, 3 / 8, 5 / 8]] 0 = Inr 0
   \<and> np_quantile [[0, 3 / 8, 5 / 8]] (3 / 4) = Inr (1 / 2)
   \<and> gt_partition 0 (1 / 2) (3 / 8) = Fin (3 / 4)
   \<and> map_sum id dissimilarities
        (geotopological_transform
           \<lparr> dissimilarities = [[0, 3 / 8, 5 / 8]], dissimilarity_measure = Some ''euclidean'',
             descriptors = [], rdm_descriptors = [], pattern_descriptors = [] \<rparr> 0 (3 / 4))
       = Inr [[Fin 0, Fin 1, Fin 1]]
   \<and> np_quantile [[- 2, - 1, 1]] (1 / 2) = Inr (- 1)
   \<and> np_quantile [[- 2, - 1, 1]] 1 = Inr 1
   \<and> gt_partition (- 1) 1 (- 2) = Fin 0
   \<and> map_sum id dissimilarities
        (geotopological_transform
           \<lparr> dissimilarities = [[- 2, - 1, 1]], dissimilarity_measure = Some ''euclidean'',
             descriptors = [], rdm_descriptors = [], pattern_descriptors = [] \<rparr> (1 / 2) 1)
       = Inr [[Fin (1 / 2), Fin 0, Fin 1]]"
  by (simp add: geotopological_transform_def get_vectors_def np_quantile_def gt_clamp_low_def
      gt_rescale_def gt_clamp_high_def gt_partition_def np_div_def str_add_def rewrap_def)

text \<open>
  Claim C2 states that the geo-topological transform with \<open>l = 0\<close> and \<open>u = 1\<close> produces
  the block of the min-max transform. On the row \<open>[0, 3/8, 1/2]\<close> the min-max transform
  gives \<open>[0, 3/4, 1]\<close>, while the geo-topological transform overwrites the rescaled \<open>3/4\<close>,
  which exceeds \<open>gt_max = 1/2\<close>, with 1.
\<close>

theorem geotopological_0_1_differs_from_minmax:
  "map_sum id dissimilarities
        (geotopological_transform
           \<lparr> dissimilarities = [[0, 3 / 8, 1 / 2]], dissimilarity_measure = Some ''euclidean'',
             descriptors = [], rdm_descriptors = [], pattern_descriptors = [] \<rparr> 0 1)
       = Inr [[Fin 0, Fin 1, Fin 1]]
   \<and> map_sum id dissimilarities
        (minmax_transform
           \<lparr> dissimilarities = [[0, 3 / 8, 1 / 2]], dissimilarity_measure = Some ''euclidean'',
             descriptors = [], rdm_descriptors = [], pattern_descriptors = [] \<rparr>)
       = Inr [[Fin 0, Fin (3 / 4), Fin 1]]"
  by (simp add: geotopological_transform_def get_vectors_def np_quantile_def gt_clamp_low_def
      gt_rescale_def gt_clamp_high_def np_div_def str_add_def rewrap_def
      minmax_transform_def np_max_def np_min_def)

subsection \<open>Degenerate ranges\<close>

text \<open>
  Claim C4 states that a zero denominator makes the call fail with a
  \<open>DegenerateRangeError\<close>. On the batch \<open>[[1, 1, 1]]\<close> the min-max transform returns a
  container whose entries are all NaN.
\<close>

theorem degenerate_range_counterexample:
  "minmax_transform
       \<lparr> dissimilarities = [[1, 1, 1]], dissimilarity_measure = Some ''euclidean'',
         descriptors = [], rdm_descriptors = [], pattern_descriptors = [] \<rparr>
     = Inr \<lparr> dissimilarities = [[NaN, NaN, NaN]],
             dissimilarity_measure = Some ''minmax transformed euclidean'',
             descriptors = [], rdm_descriptors = [], pattern_descriptors = [] \<rparr>
   \<and> minmax_transform
       \<lparr> dissimilarities = [[1, 1, 1]], dissimilarity_measure = Some ''euclidean'',
         descriptors = [], rdm_descriptors = [], pattern_descriptors = [] \<rparr>
     \<noteq> Inl DegenerateRangeError"
  by (simp add: minmax_transform_def get_vectors_def np_max_def np_min_def np_div_def
      str_add_def rewrap_def deepcopy_def)

text \<open>
  Claim C4, amended. With a measure label present, a zero denominator is not an error:
  when the global maximum equals the global minimum, \<open>minmax_transform\<close> returns a container
  whose entries are all NaN; when \<open>gt_max\<close> equals \<open>gt_min\<close>, \<open>geotopological_transform\<close>
  returns a container in which every entry equal to that bound is NaN and every entry above
  it is 1 (an entry below it is 0 when the bound is positive, 1 when it is negative and NaN
  when it is zero). Neither function has a parameter that changes this.
\<close>

theorem degenerate_range_propagates_nan:
  assumes "dissimilarity_measure rdms = Some m"
  shows "(np_max (dissimilarities rdms) = Inr c \<and> np_min (dissimilarities rdms) = Inr c
          \<longrightarrow> minmax_transform rdms
               = Inr (rewrap rdms (map (map (\<lambda>x. NaN)) (dissimilarities rdms))
                        (''minmax transformed '' @ m)))
       \<and> (np_quantile (dissimilarities rdms) l = Inr g
          \<and> np_quantile (dissimilarities rdms) u = Inr g
          \<longrightarrow> geotopological_transform rdms l u
               = Inr (rewrap rdms
                        (map (map (\<lambda>x. if x = g then NaN
                                        else if g < x then Fin 1
                                        else if g = 0 then NaN
                                        else if g < 0 then Fin 1 else Fin 0))
                           (dissimilarities rdms))
                        (''geo-topological transformed '' @ m)))"
proof (intro conjI impI)
  assume h: "np_max (dissimilarities rdms) = Inr c \<and> np_min (dissimilarities rdms) = Inr c"
  have "x = c" if "row \<in> set (dissimilarities rdms)" "x \<in> set row" for row x
  proof -
    have "x \<in> set (concat (dissimilarities rdms))" using that by auto
    then have "c \<le> x" "x \<le> c"
      using np_min_Inr(2)[of "dissimilarities rdms" c] np_max_Inr(2)[of "dissimilarities rdms" c] h
      by auto
    then show ?thesis by simp
  qed
  then have blk: "map (map (\<lambda>x. np_div (x - c) (c - c))) (dissimilarities rdms)
           = map (map (\<lambda>x. NaN)) (dissimilarities rdms)"
    by (auto simp: np_div_def)
  show "minmax_transform rdms
               = Inr (rewrap rdms (map (map (\<lambda>x. NaN)) (dissimilarities rdms))
                        (''minmax transformed '' @ m))"
    unfolding minmax_transform_value[OF assms conjunct1[OF h] conjunct2[OF h]] blk ..
next
  assume h: "np_quantile (dissimilarities rdms) l = Inr g
          \<and> np_quantile (dissimilarities rdms) u = Inr g"
  show "geotopological_transform rdms l u
               = Inr (rewrap rdms
                        (map (map (\<lambda>x. if x = g then NaN
                                        else if g < x then Fin 1
                                        else if g = 0 then NaN
                                        else if g < 0 then Fin 1 else Fin 0))
                           (dissimilarities rdms))
                        (''geo-topological transformed '' @ m))"
  proof -
    have pt: "(\<lambda>x. let y = (if x < g then 0 else x);
                      z = (if g \<le> y \<and> y \<le> g then np_div (y - g) (g - g) else Fin y)
                  in if np_greater z g then Fin 1 else z)
            = (\<lambda>x. if x = g then NaN
                    else if g < x then Fin 1
                    else if g = 0 then NaN
                    else if g < 0 then Fin 1 else Fin 0)"
      by (rule ext) (simp add: Let_def np_div_def)
    show ?thesis
      unfolding geotopological_transform_value[OF assms conjunct1[OF h] conjunct2[OF h]]
        gt_steps_entry pt ..
  qed
qed

text \<open>The amended claim C4 at the batch \<open>[[1, 1, 1]]\<close>, with \<open>l = 0\<close> and \<open>u = 1/2\<close>.\<close>

theorem degenerate_range_propagates_nan_witness:
  "minmax_transform
       \<lparr> dissimilarities = [[1, 1, 1]], dissimilarity_measure = Some ''euclidean'',
         descriptors = [], rdm_descriptors = [], pattern_descriptors = [] \<rparr>
     = Inr \<lparr> dissimilarities = [[NaN, NaN, NaN]],
             dissimilarity_measure = Some ''minmax transformed euclidean'',
             descriptors = [], rdm_descriptors = [], pattern_descriptors = [] \<rparr>
   \<and> geotopological_transform
       \<lparr> dissimilarities = [[1, 1, 1]], dissimilarity_measure = Some ''euclidean'',
         descriptors = [], rdm_descriptors = [], pattern_descriptors = [] \<rparr> 0 (1 / 2)
     = Inr \<lparr> dissimilarities = [[NaN, NaN, NaN]],
             dissimilarity_measure = Some ''geo-topological transformed euclidean'',
             descriptors = [], rdm_descriptors = [], pattern_descriptors = [] \<rparr>"
  using degenerate_range_propagates_nan
    [of "\<lparr> dissimilarities = [[1, 1, 1]], dissimilarity_measure = Some ''euclidean'',
           descriptors = [], rdm_descriptors = [], pattern_descriptors = [] \<rparr>"
        "''euclidean''" 1 0 1 "1 / 2"]
  by (simp add: np_max_def np_min_def np_quantile_def rewrap_def deepcopy_def)

subsection \<open>Ranks\<close>

lemma rank_filter_card:
  "length (filter P [0..<n]) = card {j. j < n \<and> P j}"
proof -
  have "length (filter P [0..<n]) = card ({j. P j} \<inter> set [0..<n])"
    by (rule distinct_length_filter) simp
  also have "{j. P j} \<inter> set [0..<n] = {j. j < n \<and> P j}" by auto
  finally show ?thesis .
qed

lemma rank_min_bounds:
  assumes "i < length a"
  shows "1 \<le> rank_min a i" and "rank_min a i \<le> length a"
proof -
  show "1 \<le> rank_min a i" by (simp add: rank_min_def)
  have "a ! i \<in> set a" using assms by simp
  then have "length (filter (\<lambda>y. y < a ! i) a) < length a"
    by (rule length_filter_less) simp
  then show "rank_min a i \<le> length a" by (simp add: rank_min_def)
qed

lemma rank_max_bounds:
  assumes "i < length a"
  shows "1 \<le> rank_max a i" and "rank_max a i \<le> length a"
proof -
  have "a ! i \<in> set (filter (\<lambda>y. y \<le> a ! i) a)" using assms by simp
  then have "filter (\<lambda>y. y \<le> a ! i) a \<noteq> []" by (metis empty_iff empty_set)
  then show "1 \<le> rank_max a i"
    by (simp add: rank_max_def Suc_le_eq)
  show "rank_max a i \<le> length a" by (simp add: rank_max_def)
qed

lemma rank_dense_bounds:
  assumes "i < length a"
  shows "1 \<le> rank_dense a i" and "rank_dense a i \<le> length a"
proof -
  show "1 \<le> rank_dense a i" by (simp add: rank_dense_def)
  have "length (remdups (filter (\<lambda>y. y < a ! i) a)) \<le> length (filter (\<lambda>y. y < a ! i) a)"
    by (rule length_remdups_leq)
  moreover have "length (filter (\<lambda>y. y < a ! i) a) < length a"
    using rank_min_bounds(2)[OF assms] by (simp add: rank_min_def)
  ultimately show "rank_dense a i \<le> length a" unfolding rank_dense_def by linarith
qed

lemma rank_ordinal_card: "rank_ordinal a i = card (before a i) + 1"
  by (simp add: rank_ordinal_def before_def rank_filter_card)

lemma finite_before: "finite (before a i)"
  by (simp add: before_def)

lemma rank_ordinal_bounds:
  assumes "i < length a"
  shows "1 \<le> rank_ordinal a i" and "rank_ordinal a i \<le> length a"
proof -
  show "1 \<le> rank_ordinal a i" by (simp add: rank_ordinal_def)
  have "before a i \<subseteq> {0..<length a} - {i}" by (auto simp: before_def)
  then have "card (before a i) \<le> card ({0..<length a} - {i})"
    by (intro card_mono) auto
  also have "\<dots> = length a - 1" using assms by simp
  finally show "rank_ordinal a i \<le> length a"
    using assms by (simp add: rank_ordinal_card)
qed

lemma rank_ordinal_less:
  assumes "i < length a" "j < length a"
    and "a ! i < a ! j \<or> (a ! i = a ! j \<and> i < j)"
  shows "rank_ordinal a i < rank_ordinal a j"
proof -
  have "before a i \<subseteq> before a j" using assms by (auto simp: before_def)
  moreover have "i \<in> before a j" "i \<notin> before a i" using assms by (auto simp: before_def)
  ultimately have "before a i \<subset> before a j" by auto
  then have "card (before a i) < card (before a j)"
    by (rule psubset_card_mono[OF finite_before])
  then show ?thesis by (simp add: rank_ordinal_card)
qed

lemma rank_ordinal_inj:
  assumes "i < length a" "j < length a" "rank_ordinal a i = rank_ordinal a j"
  shows "i = j"
proof (rule ccontr)
  assume "i \<noteq> j"
  then have "(a ! i < a ! j \<or> (a ! i = a ! j \<and> i < j))
           \<or> (a ! j < a ! i \<or> (a ! j = a ! i \<and> j < i))" by auto
  then show False
    using rank_ordinal_less[OF assms(1,2)] rank_ordinal_less[OF assms(2,1)] assms(3) by auto
qed

lemma rank_of_bounds:
  assumes "i < length a"
  shows "1 \<le> rank_of method a i \<and> rank_of method a i \<le> real (length a)"
proof -
  note b = rank_min_bounds[OF assms] rank_max_bounds[OF assms] rank_dense_bounds[OF assms]
    rank_ordinal_bounds[OF assms]
  have r: "1 \<le> real k \<and> real k \<le> real (length a)" if "1 \<le> k" "k \<le> length a" for k
    using that by simp
  from r[OF b(1,2)] r[OF b(3,4)] r[OF b(5,6)] r[OF b(7,8)]
  show ?thesis unfolding rank_of_def by auto
qed

lemma ordinal_row_perm:
  "distinct (ordinal_row a) \<and> set (ordinal_row a) = real ` {1..length a}
   \<and> length (ordinal_row a) = length a"
proof -
  let ?n = "length a"
  have inj: "inj_on (rank_ordinal a) {0..<?n}"
    by (rule inj_onI) (auto intro: rank_ordinal_inj)
  have inj': "inj_on (\<lambda>i. real (rank_ordinal a i)) (set [0..<?n])"
    by (rule inj_onI) (auto intro: rank_ordinal_inj)
  have d: "distinct (ordinal_row a)"
    unfolding ordinal_row_def distinct_map using inj' by simp
  have sub: "rank_ordinal a ` {0..<?n} \<subseteq> {1..?n}"
    using rank_ordinal_bounds by auto
  have "card (rank_ordinal a ` {0..<?n}) = ?n"
    using card_image[OF inj] by simp
  then have "rank_ordinal a ` {0..<?n} = {1..?n}"
    using sub by (intro card_subset_eq) auto
  then have "set (ordinal_row a) = real ` {1..?n}"
    unfolding ordinal_row_def by (simp add: image_image[symmetric] del: image_image)
  with d show ?thesis by (simp add: ordinal_row_def)
qed

lemma ordinal_row_fixed:
  assumes d: "distinct p" and s: "set p = real ` {1..length p}"
  shows "ordinal_row p = p"
proof (rule nth_equalityI)
  show "length (ordinal_row p) = length p" by (simp add: ordinal_row_def)
next
  fix i assume "i < length (ordinal_row p)"
  then have i: "i < length p" by (simp add: ordinal_row_def)
  let ?n = "length p"
  from i have "p ! i \<in> real ` {1..?n}" using s nth_mem by blast
  then obtain m where m: "p ! i = real m" "1 \<le> m" "m \<le> ?n" by auto
  have b: "before p i = {j. j < ?n \<and> p ! j < p ! i}"
    using d i by (auto simp: before_def nth_eq_iff_index_eq)
  have c: "card {j. j < ?n \<and> p ! j < p ! i} = card ((\<lambda>j. p ! j) ` {j. j < ?n \<and> p ! j < p ! i})"
    by (rule card_image[symmetric]) (auto simp: inj_on_def nth_eq_iff_index_eq d)
  have e: "(\<lambda>j. p ! j) ` {j. j < ?n \<and> p ! j < p ! i} = {v \<in> set p. v < p ! i}"
    by (auto simp: in_set_conv_nth)
  have f: "{v \<in> set p. v < p ! i} = real ` {1..<m}"
    unfolding s m(1) using m(3) by auto
  have "card (before p i) = m - 1"
    unfolding b c e f by (simp add: card_image)
  then have "rank_ordinal p i = m" using m(2) by (simp add: rank_ordinal_card)
  then show "ordinal_row p ! i = p ! i" using i m(1) by (simp add: ordinal_row_def)
qed

lemma collect_Inr: "collect (map (\<lambda>x. Inr (f x)) xs) = Inr (map f xs)"
  by (induction xs) simp_all

lemma rank_transform_value:
  assumes "method \<in> set rank_methods"
  shows "rank_transform rdms method =
           Inr (rewrap rdms
                 (map (\<lambda>row. map (rank_of method row) [0..<length row]) (dissimilarities rdms))
                 (rank_measure (dissimilarity_measure rdms)))"
proof -
  let ?d = "dissimilarities rdms"
  have "map (\<lambda>i. rankdata (?d ! i) method) [0..<length ?d]
      = map (\<lambda>i. Inr (map (rank_of method (?d ! i)) [0..<length (?d ! i)])) [0..<length ?d]"
    using assms by (simp add: rankdata_def)
  also have "collect \<dots> = Inr (map (\<lambda>i. map (rank_of method (?d ! i)) [0..<length (?d ! i)])
                                 [0..<length ?d])"
    by (rule collect_Inr)
  also have "map (\<lambda>i. map (rank_of method (?d ! i)) [0..<length (?d ! i)]) [0..<length ?d]
      = map (\<lambda>row. map (rank_of method row) [0..<length row]) ?d"
    by (rule nth_equalityI) simp_all
  finally show ?thesis
    by (simp add: rank_transform_def get_vectors_def n_rdm_def)
qed

lemma rank_transform_unknown_method:
  assumes "method \<notin> set rank_methods" "dissimilarities rdms \<noteq> []"
  shows "rank_transform rdms method = Inl ValueError"
proof -
  obtain r rs where d: "dissimilarities rdms = r # rs"
    using assms(2) by (cases "dissimilarities rdms") auto
  show ?thesis
    using assms(1)
    by (simp add: rank_transform_def get_vectors_def n_rdm_def d rankdata_def map_upt_Suc
        del: upt_Suc)
qed

lemma ordinal_rows: "map (rank_of ''ordinal'' a) [0..<length a] = ordinal_row a"
  by (simp add: rank_of_def ordinal_row_def)

lemma not_space_paren: "\<not> is_space CHR '')''" "\<not> is_space CHR ''(''" "is_space CHR '' ''"
  by (simp_all add: is_space_def)

lemma py_strip_ranks: "\<exists>t. py_strip (s @ '' (ranks)'') = t @ ''(ranks)''"
proof -
  have a: "\<exists>t. dropWhile is_space (s @ '' (ranks)'') = t @ ''(ranks)''"
  proof (cases "\<forall>c \<in> set s. is_space c")
    case True
    then have "dropWhile is_space (s @ '' (ranks)'') = dropWhile is_space '' (ranks)''"
      by (intro dropWhile_append2) auto
    then show ?thesis by (simp add: not_space_paren)
  next
    case False
    then obtain c where "c \<in> set s" "\<not> is_space c" by auto
    then have "dropWhile is_space (s @ '' (ranks)'') = dropWhile is_space s @ '' (ranks)''"
      by (rule dropWhile_append1)
    then show ?thesis by simp
  qed
  then obtain t where t: "dropWhile is_space (s @ '' (ranks)'') = t @ ''(ranks)''" ..
  have "rev (t @ ''(ranks)'') = CHR '')'' # rev (t @ ''(ranks'')" by simp
  then have "dropWhile is_space (rev (t @ ''(ranks)'')) = rev (t @ ''(ranks)'')"
    by (simp only: dropWhile.simps not_space_paren if_False)
  then show ?thesis unfolding py_strip_def t by (intro exI[of _ t]) simp
qed

lemma rank_measure_has_ranks: "sublist ''(ranks)'' (rank_measure m)"
proof (cases "sublist ''(ranks)'' (case m of None \<Rightarrow> [] | Some s \<Rightarrow> s)")
  case True
  then show ?thesis by (simp add: rank_measure_def)
next
  case False
  obtain t where "py_strip ((case m of None \<Rightarrow> [] | Some s \<Rightarrow> s) @ '' (ranks)'') = t @ ''(ranks)''"
    using py_strip_ranks by blast
  then have "sublist ''(ranks)'' (py_strip ((case m of None \<Rightarrow> [] | Some s \<Rightarrow> s) @ '' (ranks)''))"
    by (metis sublist_appendI append_Nil2)
  with False show ?thesis by (simp add: rank_measure_def)
qed

lemma rank_measure_idem: "rank_measure (Some (rank_measure m)) = rank_measure m"
  using rank_measure_has_ranks[of m] by (simp add: rank_measure_def[of "Some _"])

text \<open>
  Claim C8. For each of the five methods \<open>rank_transform\<close> returns a container of the same
  shape in which every value of every row lies between 1 and the number of entries of the
  row (\<open>n_pairs\<close>). With \<open>ordinal\<close> every output row is duplicate-free and its values are
  exactly \<open>1, \<dots>, n_pairs\<close>, so it is a permutation of them; applying \<open>rank_transform\<close> with
  \<open>ordinal\<close> to that output leaves the dissimilarities unchanged. Applying \<open>rank_transform\<close>
  a second time, with any method, leaves the measure label of the first result unchanged:
  \<open>(ranks)\<close> is not appended twice.
\<close>

theorem rank_transform_ranks:
  assumes "method \<in> set rank_methods" and "method' \<in> set rank_methods"
  shows "\<exists>new ord ord2 again.
           rank_transform rdms method = Inr new
         \<and> rank_transform rdms ''ordinal'' = Inr ord
         \<and> rank_transform ord ''ordinal'' = Inr ord2
         \<and> rank_transform new method' = Inr again
         \<and> map length (dissimilarities new) = map length (dissimilarities rdms)
         \<and> (\<forall>row \<in> set (dissimilarities new). \<forall>x \<in> set row. 1 \<le> x \<and> x \<le> real (length row))
         \<and> (\<forall>row \<in> set (dissimilarities ord).
               distinct row \<and> set row = real ` {1..length row})
         \<and> dissimilarities ord2 = dissimilarities ord
         \<and> dissimilarity_measure again = dissimilarity_measure new
         \<and> dissimilarity_measure new = Some (rank_measure (dissimilarity_measure rdms))"
proof -
  let ?d = "dissimilarities rdms"
  define new where "new = rewrap rdms (map (\<lambda>row. map (rank_of method row) [0..<length row]) ?d)
                 (rank_measure (dissimilarity_measure rdms))"
  define ord where "ord = rewrap rdms (map ordinal_row ?d)
                 (rank_measure (dissimilarity_measure rdms))"
  have ordm: "''ordinal'' \<in> set rank_methods" by (simp add: rank_methods_def)
  have 1: "rank_transform rdms method = Inr new"
    unfolding new_def by (rule rank_transform_value[OF assms(1)])
  have 2: "rank_transform rdms ''ordinal'' = Inr ord"
    unfolding ord_def rank_transform_value[OF ordm] ordinal_rows ..
  have dn: "dissimilarities new = map (\<lambda>row. map (rank_of method row) [0..<length row]) ?d"
    and mn: "dissimilarity_measure new = Some (rank_measure (dissimilarity_measure rdms))"
    and dord: "dissimilarities ord = map ordinal_row ?d"
    by (simp_all add: new_def ord_def rewrap_def)
  have perm: "distinct row \<and> set row = real ` {1..length row}"
    if "row \<in> set (dissimilarities ord)" for row
  proof -
    from that obtain a where "row = ordinal_row a" unfolding dord by auto
    then show ?thesis using ordinal_row_perm[of a] by simp
  qed
  have fixed: "map ordinal_row (dissimilarities ord) = dissimilarities ord"
    by (rule map_idI) (use perm in \<open>auto intro: ordinal_row_fixed\<close>)
  define ord2 where "ord2 = rewrap ord (map ordinal_row (dissimilarities ord))
                 (rank_measure (dissimilarity_measure ord))"
  define again where "again = rewrap new
                 (map (\<lambda>row. map (rank_of method' row) [0..<length row]) (dissimilarities new))
                 (rank_measure (dissimilarity_measure new))"
  have 3: "rank_transform ord ''ordinal'' = Inr ord2"
    unfolding ord2_def rank_transform_value[OF ordm] ordinal_rows ..
  have 4: "rank_transform new method' = Inr again"
    unfolding again_def by (rule rank_transform_value[OF assms(2)])
  have 5: "dissimilarities ord2 = dissimilarities ord"
    using fixed by (simp add: ord2_def rewrap_def)
  have 6: "dissimilarity_measure again = dissimilarity_measure new"
    by (simp add: again_def rewrap_def mn rank_measure_idem)
  have len: "map length (dissimilarities new) = map length ?d"
    by (simp add: dn comp_def)
  have rng: "1 \<le> x \<and> x \<le> real (length row)"
    if "row \<in> set (dissimilarities new)" "x \<in> set row" for row x
  proof -
    from that(1) obtain a where a: "a \<in> set ?d" "row = map (rank_of method a) [0..<length a]"
      unfolding dn by auto
    with that(2) obtain i where "i < length a" "x = rank_of method a i" by auto
    then show ?thesis using rank_of_bounds[of i a "method"] a(2) by simp
  qed
  show ?thesis
  proof (rule exI[of _ new], rule exI[of _ ord], rule exI[of _ ord2], rule exI[of _ again],
      intro conjI ballI)
    show "rank_transform rdms method = Inr new" by (rule 1)
    show "rank_transform rdms ''ordinal'' = Inr ord" by (rule 2)
    show "rank_transform ord ''ordinal'' = Inr ord2" by (rule 3)
    show "rank_transform new method' = Inr again" by (rule 4)
    show "map length (dissimilarities new) = map length ?d" by (rule len)
    show "1 \<le> x" "x \<le> real (length row)"
      if "row \<in> set (dissimilarities new)" "x \<in> set row" for row x
      using rng[OF that] by simp_all
    show "distinct row" "set row = real ` {1..length row}"
      if "row \<in> set (dissimilarities ord)" for row
      using perm[OF that] by simp_all
    show "dissimilarities ord2 = dissimilarities ord" by (rule 5)
    show "dissimilarity_measure again = dissimilarity_measure new" by (rule 6)
    show "dissimilarity_measure new = Some (rank_measure (dissimilarity_measure rdms))"
      by (rule mn)
  qed
qed

lemma rank_measure_euclidean: "rank_measure (Some ''euclidean'') = ''euclidean (ranks)''"
  by (simp add: rank_measure_def sublist_Cons_right py_strip_def is_space_def)

text \<open>The theorem of claim C8 at the row \<open>[1, 2, 1, 2, 3]\<close> with \<open>average\<close>, then \<open>ordinal\<close>.\<close>

theorem rank_transform_ranks_witness:
  "''average'' \<in> set rank_methods \<and> ''ordinal'' \<in> set rank_methods
   \<and> (\<exists>new again.
         rank_transform \<lparr> dissimilarities = [[1, 2, 1, 2, 3]],
                          dissimilarity_measure = Some ''euclidean'',
                          descriptors = [], rdm_descriptors = [],
                          pattern_descriptors = [] \<rparr> ''average'' = Inr new
       \<and> rank_transform new ''ordinal'' = Inr again
       \<and> (\<forall>row \<in> set (dissimilarities new). \<forall>x \<in> set row. 1 \<le> x \<and> x \<le> real (length row))
       \<and> dissimilarity_measure again = Some ''euclidean (ranks)'')"
  using rank_transform_ranks
    [of "''average''" "''ordinal''"
        "\<lparr> dissimilarities = [[1, 2, 1, 2, 3]], dissimilarity_measure = Some ''euclidean'',
           descriptors = [], rdm_descriptors = [], pattern_descriptors = [] \<rparr>"]
  by (auto simp: rank_methods_def rank_measure_euclidean)

subsection \<open>Invalid parameters\<close>

text \<open>
  Claim C5 states that an unknown rank method and bounds with \<open>l \<ge> u\<close> are rejected with an
  \<open>InvalidParameterError\<close>. With the method \<open>median\<close> the exception is the \<open>ValueError\<close> of
  the ranking routine; with \<open>l = 3/4\<close> and \<open>u = 1/4\<close> the geo-topological transform returns
  a container.
\<close>

theorem invalid_parameter_counterexample:
  "rank_transform \<lparr> dissimilarities = [[1, 2, 3]], dissimilarity_measure = Some ''euclidean'',
                    descriptors = [], rdm_descriptors = [], pattern_descriptors = [] \<rparr>
       ''median'' = Inl ValueError
   \<and> rank_transform \<lparr> dissimilarities = [[1, 2, 3]], dissimilarity_measure = Some ''euclidean'',
                    descriptors = [], rdm_descriptors = [], pattern_descriptors = [] \<rparr>
       ''median'' \<noteq> Inl InvalidParameterError
   \<and> geotopological_transform
        \<lparr> dissimilarities = [[1, 2, 3]], dissimilarity_measure = Some ''euclidean'',
          descriptors = [], rdm_descriptors = [], pattern_descriptors = [] \<rparr> (3 / 4) (1 / 4)
     = Inr \<lparr> dissimilarities = [[Fin 0, Fin 0, Fin 1]],
             dissimilarity_measure = Some ''geo-topological transformed euclidean'',
             descriptors = [], rdm_descriptors = [], pattern_descriptors = [] \<rparr>"
  by (simp add: rank_transform_def get_vectors_def n_rdm_def rankdata_def rank_methods_def
      geotopological_transform_def np_quantile_def gt_clamp_low_def gt_rescale_def
      gt_clamp_high_def np_div_def str_add_def rewrap_def deepcopy_def)

lemma np_quantile_total:
  assumes "0 \<le> q" "q \<le> 1" "concat d \<noteq> []"
  shows "\<exists>g. np_quantile d q = Inr g"
  using assms by (simp add: np_quantile_def Let_def)

text \<open>
  Claim C5, amended. On a batch with at least one row, \<open>rank_transform\<close> with a method outside
  the five fails with the \<open>ValueError\<close> that the ranking routine raises on the first row,
  before any rank is computed. \<open>geotopological_transform\<close> called with \<open>l \<ge> u\<close>, both in
  \<open>[0, 1]\<close>, on a batch with at least one entry and a measure label does not fail: both
  quantiles are computed and the three assignments are applied as for any other bounds.
\<close>

theorem invalid_parameters_not_rejected:
  "(method \<notin> set rank_methods \<and> dissimilarities rdms \<noteq> []
      \<longrightarrow> rank_transform rdms method = Inl ValueError)
   \<and> (0 \<le> u \<and> u \<le> l \<and> l \<le> 1 \<and> concat (dissimilarities rdms') \<noteq> []
        \<and> dissimilarity_measure rdms' = Some m
      \<longrightarrow> (\<exists>gt_min gt_max.
             np_quantile (dissimilarities rdms') l = Inr gt_min
           \<and> np_quantile (dissimilarities rdms') u = Inr gt_max
           \<and> geotopological_transform rdms' l u
               = Inr (rewrap rdms'
                       (gt_clamp_high gt_max (gt_rescale gt_min gt_max
                          (gt_clamp_low gt_min (dissimilarities rdms'))))
                       (''geo-topological transformed '' @ m))))"
proof (intro conjI impI)
  assume "method \<notin> set rank_methods \<and> dissimilarities rdms \<noteq> []"
  then show "rank_transform rdms method = Inl ValueError"
    using rank_transform_unknown_method by blast
next
  assume h: "0 \<le> u \<and> u \<le> l \<and> l \<le> 1 \<and> concat (dissimilarities rdms') \<noteq> []
        \<and> dissimilarity_measure rdms' = Some m"
  then obtain gt_min gt_max where
    q: "np_quantile (dissimilarities rdms') l = Inr gt_min"
       "np_quantile (dissimilarities rdms') u = Inr gt_max"
    using np_quantile_total[of l "dissimilarities rdms'"]
      np_quantile_total[of u "dissimilarities rdms'"] by auto
  from h have m: "dissimilarity_measure rdms' = Some m" by simp
  show "\<exists>gt_min gt_max.
             np_quantile (dissimilarities rdms') l = Inr gt_min
           \<and> np_quantile (dissimilarities rdms') u = Inr gt_max
           \<and> geotopological_transform rdms' l u
               = Inr (rewrap rdms'
                       (gt_clamp_high gt_max (gt_rescale gt_min gt_max
                          (gt_clamp_low gt_min (dissimilarities rdms'))))
                       (''geo-topological transformed '' @ m))"
    using q geotopological_transform_value[OF m q] by blast
qed

text \<open>The amended claim C5 at the method \<open>median\<close> and at \<open>l = 3/4\<close>, \<open>u = 1/4\<close>.\<close>

theorem invalid_parameters_not_rejected_witness:
  "rank_transform \<lparr> dissimilarities = [[1, 2, 3]], dissimilarity_measure = Some ''euclidean'',
                    descriptors = [], rdm_descriptors = [], pattern_descriptors = [] \<rparr>
       ''median'' = Inl ValueError
   \<and> (\<exists>new. geotopological_transform
        \<lparr> dissimilarities = [[1, 2, 3]], dissimilarity_measure = Some ''euclidean'',
          descriptors = [], rdm_descriptors = [], pattern_descriptors = [] \<rparr> (3 / 4) (1 / 4)
     = Inr new)"
  using invalid_parameters_not_rejected
    [of "''median''"
        "\<lparr> dissimilarities = [[1, 2, 3]], dissimilarity_measure = Some ''euclidean'',
           descriptors = [], rdm_descriptors = [], pattern_descriptors = [] \<rparr>"
        "1 / 4" "3 / 4"
        "\<lparr> dissimilarities = [[1, 2, 3]], dissimilarity_measure = Some ''euclidean'',
           descriptors = [], rdm_descriptors = [], pattern_descriptors = [] \<rparr>"
        "''euclidean''"]
  by (auto simp: rank_methods_def)

end
